theory Spec2Isabelle
  imports Complex_Main
begin

section \<open>Derivative of the cone-program fixed-point residual (cpp/src/deriv.cpp)\<close>

text \<open>
  The C++ \<^verbatim>\<open>double\<close> is idealised as a real number: the file under study only
  compares, adds, subtracts and multiplies doubles, and the statements below are about the
  mathematical maps these operations denote. Sizes (\<^verbatim>\<open>int\<close> in the source) are natural
  numbers; they are assumed to fit the C++ \<^verbatim>\<open>int\<close>.
\<close>

subsection \<open>Errors, vectors and matrices of the linear-algebra layer\<close>

text \<open>
  The linear-algebra layer checks shapes with assertions; a failed assertion is the error
  value \<open>DimMismatch\<close>, an index out of range is \<open>IndexOutOfRange\<close>.
\<close>

datatype error = DimMismatch | IndexOutOfRange

definition ebind :: "error + 'a \<Rightarrow> ('a \<Rightarrow> error + 'b) \<Rightarrow> error + 'b" where
  "ebind r f = (case r of Inl e \<Rightarrow> Inl e | Inr a \<Rightarrow> f a)"

type_synonym Vector = "real list"

text \<open>
  A matrix has its two dimensions and its coefficients. Coefficients outside the
  dimensions do not exist in the program; \<open>mk_mat\<close> fixes them to 0 so that two matrices
  with the same dimensions and the same entries are equal.
\<close>

record Matrix =
  rows :: nat
  cols :: nat
  coeff :: "nat \<Rightarrow> nat \<Rightarrow> real"

type_synonym SparseMatrix = Matrix

definition mk_mat :: "nat \<Rightarrow> nat \<Rightarrow> (nat \<Rightarrow> nat \<Rightarrow> real) \<Rightarrow> Matrix" where
  "mk_mat r c f = \<lparr>rows = r, cols = c, coeff = (\<lambda>i j. if i < r \<and> j < c then f i j else 0)\<rparr>"

text \<open>\<^verbatim>\<open>Matrix::Zero(r, c)\<close>.\<close>

definition Zero :: "nat \<Rightarrow> nat \<Rightarrow> Matrix" where
  "Zero r c = mk_mat r c (\<lambda>i j. 0)"

text \<open>\<^verbatim>\<open>SparseMatrix eye(r, c); eye.setIdentity();\<close>\<close>

definition setIdentity :: "nat \<Rightarrow> nat \<Rightarrow> SparseMatrix" where
  "setIdentity r c = mk_mat r c (\<lambda>i j. if i = j then 1 else 0)"

text \<open>
  \<^verbatim>\<open>D.block(r0, c0, h, w) = src\<close>: the block must lie inside \<open>D\<close> and \<open>src\<close> must have
  the block's shape (a block cannot be resized).
\<close>

definition assign_block :: "Matrix \<Rightarrow> nat \<Rightarrow> nat \<Rightarrow> nat \<Rightarrow> nat \<Rightarrow> Matrix \<Rightarrow> error + Matrix" where
  "assign_block D r0 c0 h w src =
     (if r0 + h \<le> rows D \<and> c0 + w \<le> cols D then
        if rows src = h \<and> cols src = w then
          Inr (mk_mat (rows D) (cols D)
                 (\<lambda>i j. if r0 \<le> i \<and> i < r0 + h \<and> c0 \<le> j \<and> j < c0 + w
                         then coeff src (i - r0) (j - c0) else coeff D i j))
        else Inl DimMismatch
      else Inl IndexOutOfRange)"

text \<open>\<^verbatim>\<open>D(i, j) = x\<close>.\<close>

definition assign_coeff :: "Matrix \<Rightarrow> nat \<Rightarrow> nat \<Rightarrow> real \<Rightarrow> error + Matrix" where
  "assign_coeff D i j x =
     (if i < rows D \<and> j < cols D then
        Inr (mk_mat (rows D) (cols D) (\<lambda>i' j'. if i' = i \<and> j' = j then x else coeff D i' j'))
      else Inl IndexOutOfRange)"

text \<open>\<^verbatim>\<open>A - B\<close>, \<^verbatim>\<open>A + B\<close> and \<^verbatim>\<open>A * B\<close> on matrices, \<^verbatim>\<open>A * x\<close> on a vector.\<close>

definition mat_sub :: "Matrix \<Rightarrow> Matrix \<Rightarrow> error + Matrix" where
  "mat_sub A B =
     (if rows A = rows B \<and> cols A = cols B
      then Inr (mk_mat (rows A) (cols A) (\<lambda>i j. coeff A i j - coeff B i j))
      else Inl DimMismatch)"

definition mat_add :: "Matrix \<Rightarrow> Matrix \<Rightarrow> error + Matrix" where
  "mat_add A B =
     (if rows A = rows B \<and> cols A = cols B
      then Inr (mk_mat (rows A) (cols A) (\<lambda>i j. coeff A i j + coeff B i j))
      else Inl DimMismatch)"

definition mat_mul :: "Matrix \<Rightarrow> Matrix \<Rightarrow> error + Matrix" where
  "mat_mul A B =
     (if cols A = rows B
      then Inr (mk_mat (rows A) (cols B)
                  (\<lambda>i j. \<Sum>k\<leftarrow>[0..<cols A]. coeff A i k * coeff B k j))
      else Inl DimMismatch)"

definition mat_vec_raw :: "Matrix \<Rightarrow> Vector \<Rightarrow> Vector" where
  "mat_vec_raw A x = map (\<lambda>i. \<Sum>k\<leftarrow>[0..<cols A]. coeff A i k * x ! k) [0..<rows A]"

definition mat_vec :: "Matrix \<Rightarrow> Vector \<Rightarrow> error + Vector" where
  "mat_vec A x = (if cols A = length x then Inr (mat_vec_raw A x) else Inl DimMismatch)"

definition transpose_mat :: "Matrix \<Rightarrow> Matrix" where
  "transpose_mat A = mk_mat (cols A) (rows A) (\<lambda>i j. coeff A j i)"

subsection \<open>Linear operators\<close>

text \<open>
  The class \<^verbatim>\<open>LinearOperator\<close>, its functions \<^verbatim>\<open>identity\<close>, \<^verbatim>\<open>scalar\<close>,
  \<^verbatim>\<open>block_diag\<close>, \<^verbatim>\<open>aslinearoperator\<close> and its operators \<^verbatim>\<open>+\<close>, \<^verbatim>\<open>-\<close>, \<^verbatim>\<open>*\<close> are
  declared in \<^verbatim>\<open>linop.h\<close>, which is not among the sources; \<^verbatim>\<open>deriv.cpp\<close> only calls
  them. The definitions of this subsection follow the spec's data model and external
  interfaces. The compositions are lazy: they build closures and compute nothing.
\<close>

text \<open>
  Modelled from the spec: the type \<^verbatim>\<open>LinearOperator\<close> (missing: \<^verbatim>\<open>linop.h\<close>), "an abstract
  linear map supporting application to a vector (and, by convention, an adjoint
  application)". An operator is its two dimensions, its application and its adjoint
  application.
\<close>

record LinearOperator =
  op_rows :: nat
  op_cols :: nat
  matvec :: "Vector \<Rightarrow> Vector"
  rmatvec :: "Vector \<Rightarrow> Vector"

text \<open>Modelled from the spec: \<^verbatim>\<open>identity(n)\<close> (missing: \<^verbatim>\<open>linop.h\<close>), the identity on \<open>\<real>\<^sup>n\<close>.\<close>

definition identity :: "nat \<Rightarrow> LinearOperator" where
  "identity n = \<lparr>op_rows = n, op_cols = n, matvec = (\<lambda>x. x), rmatvec = (\<lambda>x. x)\<rparr>"

text \<open>
  Modelled from the spec: \<^verbatim>\<open>scalar(c)\<close> (missing: \<^verbatim>\<open>linop.h\<close>), the \<open>1 \<times> 1\<close> operator
  equal to the scalar \<open>c\<close>.
\<close>

definition scalar :: "real \<Rightarrow> LinearOperator" where
  "scalar c = \<lparr>op_rows = 1, op_cols = 1, matvec = map (\<lambda>a. c * a), rmatvec = map (\<lambda>a. c * a)\<rparr>"

text \<open>
  Modelled from the spec: \<^verbatim>\<open>aslinearoperator(A)\<close> (missing: \<^verbatim>\<open>linop.h\<close>), wrapping a sparse
  matrix as an operator: it applies \<open>A\<close>, and its adjoint applies the transpose.
\<close>

definition aslinearoperator :: "SparseMatrix \<Rightarrow> LinearOperator" where
  "aslinearoperator A =
     \<lparr>op_rows = rows A, op_cols = cols A,
      matvec = mat_vec_raw A, rmatvec = mat_vec_raw (transpose_mat A)\<rparr>"

text \<open>
  Modelled from the spec: \<^verbatim>\<open>block_diag(linops)\<close> (missing: \<^verbatim>\<open>linop.h\<close>), the
  "block-diagonal stacking of a sequence of operators into one operator acting on the
  concatenation of their domains": each operator is applied to its own segment of the
  argument, and the results are concatenated in the order of the sequence.
\<close>

fun block_matvec :: "LinearOperator list \<Rightarrow> Vector \<Rightarrow> Vector" where
  "block_matvec [] x = []"
| "block_matvec (L # Ls) x = matvec L (take (op_cols L) x) @ block_matvec Ls (drop (op_cols L) x)"

fun block_rmatvec :: "LinearOperator list \<Rightarrow> Vector \<Rightarrow> Vector" where
  "block_rmatvec [] x = []"
| "block_rmatvec (L # Ls) x = rmatvec L (take (op_rows L) x) @ block_rmatvec Ls (drop (op_rows L) x)"

definition block_diag :: "LinearOperator list \<Rightarrow> LinearOperator" where
  "block_diag linops =
     \<lparr>op_rows = sum_list (map op_rows linops), op_cols = sum_list (map op_cols linops),
      matvec = block_matvec linops, rmatvec = block_rmatvec linops\<rparr>"

text \<open>
  Modelled from the spec: the operators \<^verbatim>\<open>+\<close>, \<^verbatim>\<open>-\<close> and \<^verbatim>\<open>*\<close> on \<^verbatim>\<open>LinearOperator\<close>
  (missing: \<^verbatim>\<open>linop.h\<close>): sum, difference and composition of linear maps. A shape
  mismatch is a failure of the linear-algebra layer.
\<close>

definition linop_add :: "LinearOperator \<Rightarrow> LinearOperator \<Rightarrow> error + LinearOperator" where
  "linop_add A B =
     (if op_rows A = op_rows B \<and> op_cols A = op_cols B
      then Inr \<lparr>op_rows = op_rows A, op_cols = op_cols A,
                matvec = (\<lambda>x. map2 (+) (matvec A x) (matvec B x)),
                rmatvec = (\<lambda>x. map2 (+) (rmatvec A x) (rmatvec B x))\<rparr>
      else Inl DimMismatch)"

definition linop_sub :: "LinearOperator \<Rightarrow> LinearOperator \<Rightarrow> error + LinearOperator" where
  "linop_sub A B =
     (if op_rows A = op_rows B \<and> op_cols A = op_cols B
      then Inr \<lparr>op_rows = op_rows A, op_cols = op_cols A,
                matvec = (\<lambda>x. map2 (-) (matvec A x) (matvec B x)),
                rmatvec = (\<lambda>x. map2 (-) (rmatvec A x) (rmatvec B x))\<rparr>
      else Inl DimMismatch)"

definition linop_mul :: "LinearOperator \<Rightarrow> LinearOperator \<Rightarrow> error + LinearOperator" where
  "linop_mul A B =
     (if op_cols A = op_rows B
      then Inr \<lparr>op_rows = op_rows A, op_cols = op_cols B,
                matvec = (\<lambda>x. matvec A (matvec B x)),
                rmatvec = (\<lambda>x. rmatvec B (rmatvec A x))\<rparr>
      else Inl DimMismatch)"

subsection \<open>The scalar step function\<close>

definition gt :: "real \<Rightarrow> real \<Rightarrow> real" where
  "gt x t = (if x \<ge> t then 1 else 0)"

subsection \<open>The operator pipeline\<close>

text \<open>
  The cone-projection derivative in operator form, \<^verbatim>\<open>dprojection(v, cones, dual)\<close>,
  belongs to the cone collaborator; it is the parameter \<open>dprojection\<close>.
\<close>

definition dpi ::
  "(Vector \<Rightarrow> 'cone list \<Rightarrow> bool \<Rightarrow> LinearOperator) \<Rightarrow> Vector \<Rightarrow> Vector \<Rightarrow> real \<Rightarrow> 'cone list \<Rightarrow> LinearOperator" where
  "dpi dprojection u v w cones =
     (let eye = identity (length u);
          D_proj = dprojection v cones True;
          last = scalar (gt w 0);
          linops = [eye, D_proj, last]
      in block_diag linops)"

definition M_operator ::
  "(Vector \<Rightarrow> 'cone list \<Rightarrow> bool \<Rightarrow> LinearOperator) \<Rightarrow> SparseMatrix \<Rightarrow> 'cone list \<Rightarrow> Vector \<Rightarrow> Vector \<Rightarrow> real \<Rightarrow> error + LinearOperator" where
  "M_operator dprojection Q cones u v w =
     (let N = length u + length v + 1
      in ebind (linop_sub (aslinearoperator Q) (identity N)) (\<lambda>QmI.
         ebind (linop_mul QmI (dpi dprojection u v w cones)) (\<lambda>P.
         linop_add P (identity N))))"

subsection \<open>The dense pipeline\<close>

text \<open>
  The dense cone-projection derivative \<^verbatim>\<open>dprojection_dense(v, cones, dual)\<close> belongs to
  the cone collaborator; it is the parameter \<open>dprojection_dense\<close>, and the cone descriptor
  is the type parameter \<open>'cone\<close>.
\<close>

definition dpi_dense ::
  "(Vector \<Rightarrow> 'cone list \<Rightarrow> bool \<Rightarrow> Matrix) \<Rightarrow> Vector \<Rightarrow> Vector \<Rightarrow> real \<Rightarrow> 'cone list \<Rightarrow> error + Matrix" where
  "dpi_dense dprojection_dense u v w cones =
     (let n = length u;
          m = length v;
          N = n + m + 1;
          D = Zero N N;
          eye = setIdentity n n
      in ebind (assign_block D 0 0 n n eye) (\<lambda>D.
         ebind (assign_block D n n (N - n - 1) (N - n - 1) (dprojection_dense v cones True)) (\<lambda>D.
         assign_coeff D (N - 1) (N - 1) (gt w 0))))"

definition M_dense ::
  "(Vector \<Rightarrow> 'cone list \<Rightarrow> bool \<Rightarrow> Matrix) \<Rightarrow> Matrix \<Rightarrow> 'cone list \<Rightarrow> Vector \<Rightarrow> Vector \<Rightarrow> real \<Rightarrow> error + Matrix" where
  "M_dense dprojection_dense Q cones u v w =
     (let n = length u;
          m = length v;
          N = n + m + 1;
          eye = setIdentity N N
      in ebind (mat_sub Q eye) (\<lambda>QmI.
         ebind (dpi_dense dprojection_dense u v w cones) (\<lambda>D.
         ebind (mat_mul QmI D) (\<lambda>P.
         mat_add P eye))))"

subsection \<open>The direct solves\<close>

text \<open>
  \<^verbatim>\<open>M.colPivHouseholderQr().solve(rhs)\<close> is the column-pivoting Householder QR solve of
  the linear-algebra library. It is a deterministic function of the matrix and the
  right-hand side, and is the parameter \<open>colPivHouseholderQr_solve\<close>.
\<close>

definition solve_derivative_dense ::
  "(Matrix \<Rightarrow> Vector \<Rightarrow> error + Vector) \<Rightarrow> Matrix \<Rightarrow> Vector \<Rightarrow> error + Vector" where
  "solve_derivative_dense colPivHouseholderQr_solve M rhs = colPivHouseholderQr_solve M rhs"

definition solve_adjoint_derivative_dense ::
  "(Matrix \<Rightarrow> Vector \<Rightarrow> error + Vector) \<Rightarrow> Matrix \<Rightarrow> Vector \<Rightarrow> error + Vector" where
  "solve_adjoint_derivative_dense colPivHouseholderQr_solve MT dz = colPivHouseholderQr_solve MT dz"

subsection \<open>Auxiliary notions for the statements\<close>

text \<open>
  The entries of the matrix that \<open>dpi_dense\<close> builds, written in closed form: the
  identity on the first \<open>n\<close> indices, the matrix \<open>P\<close> on the next \<open>m\<close>, the
  scalar \<open>g\<close> in the last place and 0 elsewhere.
\<close>

definition dpi_entries :: "nat \<Rightarrow> nat \<Rightarrow> Matrix \<Rightarrow> real \<Rightarrow> nat \<Rightarrow> nat \<Rightarrow> real" where
  "dpi_entries n m P g i j =
     (if i < n \<and> j < n then (if i = j then 1 else 0)
      else if n \<le> i \<and> i < n + m \<and> n \<le> j \<and> j < n + m then coeff P (i - n) (j - n)
      else if i = n + m \<and> j = n + m then g else 0)"

text \<open>
  The operator and the dense form of the cone-projection derivative denote the same
  linear map: same shape, same action on every vector of the domain.
\<close>

definition same_linear_map :: "LinearOperator \<Rightarrow> Matrix \<Rightarrow> bool" where
  "same_linear_map L A \<longleftrightarrow>
     op_rows L = rows A \<and> op_cols L = cols A \<and>
     (\<forall>y. length y = cols A \<longrightarrow> matvec L y = mat_vec_raw A y)"

section \<open>Properties\<close>

subsection \<open>Matrices and their action on vectors\<close>

lemma rows_mk_mat: "rows (mk_mat r c f) = r"
  and cols_mk_mat: "cols (mk_mat r c f) = c"
  and coeff_mk_mat: "coeff (mk_mat r c f) i j = (if i < r \<and> j < c then f i j else 0)"
  by (simp_all add: mk_mat_def)

lemma mk_mat_cong: "(\<And>i j. i < r \<Longrightarrow> j < c \<Longrightarrow> f i j = g i j) \<Longrightarrow> mk_mat r c f = mk_mat r c g"
  by (auto simp: mk_mat_def fun_eq_iff)

lemma dpi_dense_eq:
  assumes "rows (dp v cones True) = length v" "cols (dp v cones True) = length v"
  shows "dpi_dense dp u v w cones =
         Inr (mk_mat (length u + length v + 1) (length u + length v + 1)
                (dpi_entries (length u) (length v) (dp v cones True) (gt w 0)))"
  using assms
  unfolding dpi_dense_def Let_def ebind_def assign_block_def assign_coeff_def Zero_def setIdentity_def
  by (auto simp: rows_mk_mat cols_mk_mat coeff_mk_mat dpi_entries_def intro!: mk_mat_cong)

lemma dpi_dense_err:
  assumes "\<not> (rows (dp v cones True) = length v \<and> cols (dp v cones True) = length v)"
  shows "dpi_dense dp u v w cones = Inl DimMismatch"
  using assms
  unfolding dpi_dense_def Let_def ebind_def assign_block_def assign_coeff_def Zero_def setIdentity_def
  by (auto simp: rows_mk_mat cols_mk_mat coeff_mk_mat)

lemma length_mat_vec_raw: "length (mat_vec_raw A x) = rows A"
  by (simp add: mat_vec_raw_def)

lemma mat_vec_raw_nth:
  "i < rows A \<Longrightarrow> mat_vec_raw A x ! i = (\<Sum>k = 0..<cols A. coeff A i k * x ! k)"
  by (simp add: mat_vec_raw_def interv_sum_list_conv_sum_set_nat)

lemma mat_vec_raw_setIdentity:
  assumes "length x = n"
  shows "mat_vec_raw (setIdentity n n) x = x"
proof (rule nth_equalityI)
  show "length (mat_vec_raw (setIdentity n n) x) = length x"
    using assms by (simp add: length_mat_vec_raw setIdentity_def rows_mk_mat)
next
  fix i assume "i < length (mat_vec_raw (setIdentity n n) x)"
  then have i: "i < n" by (simp add: length_mat_vec_raw setIdentity_def rows_mk_mat)
  have "mat_vec_raw (setIdentity n n) x ! i
        = (\<Sum>k = 0..<n. coeff (setIdentity n n) i k * x ! k)"
    using i by (simp add: mat_vec_raw_nth setIdentity_def rows_mk_mat cols_mk_mat)
  also have "\<dots> = (\<Sum>k = 0..<n. (if k = i then x ! k else 0))"
    using i by (intro sum.cong) (auto simp: setIdentity_def coeff_mk_mat)
  also have "\<dots> = x ! i" using i by (simp add: sum.delta)
  finally show "mat_vec_raw (setIdentity n n) x ! i = x ! i" .
qed

lemma mat_vec_raw_sub:
  assumes "mat_sub A B = Inr C"
  shows "mat_vec_raw C x = map2 (-) (mat_vec_raw A x) (mat_vec_raw B x)"
proof -
  from assms have d: "rows A = rows B" "cols A = cols B"
    and C: "C = mk_mat (rows A) (cols A) (\<lambda>i j. coeff A i j - coeff B i j)"
    by (auto simp: mat_sub_def split: if_splits)
  show ?thesis
  proof (rule nth_equalityI)
    show "length (mat_vec_raw C x) = length (map2 (-) (mat_vec_raw A x) (mat_vec_raw B x))"
      using d by (simp add: C length_mat_vec_raw rows_mk_mat)
  next
    fix i assume "i < length (mat_vec_raw C x)"
    then have i: "i < rows A" by (simp add: C length_mat_vec_raw rows_mk_mat)
    have "mat_vec_raw C x ! i = (\<Sum>k = 0..<cols A. (coeff A i k - coeff B i k) * x ! k)"
      using i by (simp add: C mat_vec_raw_nth rows_mk_mat cols_mk_mat coeff_mk_mat)
    also have "\<dots> = (\<Sum>k = 0..<cols A. coeff A i k * x ! k) - (\<Sum>k = 0..<cols B. coeff B i k * x ! k)"
      by (simp add: d left_diff_distrib sum_subtractf)
    finally show "mat_vec_raw C x ! i = map2 (-) (mat_vec_raw A x) (mat_vec_raw B x) ! i"
      using i d by (simp add: mat_vec_raw_nth length_mat_vec_raw)
  qed
qed

lemma mat_vec_raw_add:
  assumes "mat_add A B = Inr C"
  shows "mat_vec_raw C x = map2 (+) (mat_vec_raw A x) (mat_vec_raw B x)"
proof -
  from assms have d: "rows A = rows B" "cols A = cols B"
    and C: "C = mk_mat (rows A) (cols A) (\<lambda>i j. coeff A i j + coeff B i j)"
    by (auto simp: mat_add_def split: if_splits)
  show ?thesis
  proof (rule nth_equalityI)
    show "length (mat_vec_raw C x) = length (map2 (+) (mat_vec_raw A x) (mat_vec_raw B x))"
      using d by (simp add: C length_mat_vec_raw rows_mk_mat)
  next
    fix i assume "i < length (mat_vec_raw C x)"
    then have i: "i < rows A" by (simp add: C length_mat_vec_raw rows_mk_mat)
    have "mat_vec_raw C x ! i = (\<Sum>k = 0..<cols A. (coeff A i k + coeff B i k) * x ! k)"
      using i by (simp add: C mat_vec_raw_nth rows_mk_mat cols_mk_mat coeff_mk_mat)
    also have "\<dots> = (\<Sum>k = 0..<cols A. coeff A i k * x ! k) + (\<Sum>k = 0..<cols B. coeff B i k * x ! k)"
      by (simp add: d distrib_right sum.distrib)
    finally show "mat_vec_raw C x ! i = map2 (+) (mat_vec_raw A x) (mat_vec_raw B x) ! i"
      using i d by (simp add: mat_vec_raw_nth length_mat_vec_raw)
  qed
qed

lemma mat_vec_raw_mul:
  assumes "mat_mul A B = Inr C"
  shows "mat_vec_raw C x = mat_vec_raw A (mat_vec_raw B x)"
proof -
  from assms have d: "cols A = rows B"
    and C: "C = mk_mat (rows A) (cols B) (\<lambda>i j. \<Sum>k\<leftarrow>[0..<cols A]. coeff A i k * coeff B k j)"
    by (auto simp: mat_mul_def split: if_splits)
  show ?thesis
  proof (rule nth_equalityI)
    show "length (mat_vec_raw C x) = length (mat_vec_raw A (mat_vec_raw B x))"
      by (simp add: C length_mat_vec_raw rows_mk_mat)
  next
    fix i assume "i < length (mat_vec_raw C x)"
    then have i: "i < rows A" by (simp add: C length_mat_vec_raw rows_mk_mat)
    have "mat_vec_raw C x ! i
          = (\<Sum>j = 0..<cols B. (\<Sum>k = 0..<cols A. coeff A i k * coeff B k j) * x ! j)"
      using i by (simp add: C mat_vec_raw_nth rows_mk_mat cols_mk_mat coeff_mk_mat
          interv_sum_list_conv_sum_set_nat)
    also have "\<dots> = (\<Sum>j = 0..<cols B. \<Sum>k = 0..<cols A. coeff A i k * (coeff B k j * x ! j))"
      by (simp add: sum_distrib_right mult.assoc)
    also have "\<dots> = (\<Sum>k = 0..<cols A. \<Sum>j = 0..<cols B. coeff A i k * (coeff B k j * x ! j))"
      by (rule sum.swap)
    also have "\<dots> = (\<Sum>k = 0..<cols A. coeff A i k * mat_vec_raw B x ! k)"
      by (rule sum.cong) (simp_all add: d mat_vec_raw_nth sum_distrib_left)
    finally show "mat_vec_raw C x ! i = mat_vec_raw A (mat_vec_raw B x) ! i"
      using i by (simp add: mat_vec_raw_nth)
  qed
qed

lemma coeff_mat_sub:
  "mat_sub A B = Inr C \<Longrightarrow> i < rows A \<Longrightarrow> j < cols A \<Longrightarrow> coeff C i j = coeff A i j - coeff B i j"
  by (auto simp: mat_sub_def coeff_mk_mat split: if_splits)

lemma coeff_mat_add:
  "mat_add A B = Inr C \<Longrightarrow> i < rows A \<Longrightarrow> j < cols A \<Longrightarrow> coeff C i j = coeff A i j + coeff B i j"
  by (auto simp: mat_add_def coeff_mk_mat split: if_splits)

lemma coeff_mat_mul:
  "mat_mul A B = Inr C \<Longrightarrow> i < rows A \<Longrightarrow> j < cols B \<Longrightarrow>
   coeff C i j = (\<Sum>k = 0..<cols A. coeff A i k * coeff B k j)"
  by (auto simp: mat_mul_def coeff_mk_mat interv_sum_list_conv_sum_set_nat split: if_splits)

lemma dims_mat_sub: "mat_sub A B = Inr C \<Longrightarrow> rows C = rows A \<and> cols C = cols A"
  by (auto simp: mat_sub_def rows_mk_mat cols_mk_mat split: if_splits)

lemma dims_mat_mul: "mat_mul A B = Inr C \<Longrightarrow> rows C = rows A \<and> cols C = cols B"
  by (auto simp: mat_mul_def rows_mk_mat cols_mk_mat split: if_splits)

lemma mat_add_Inr:
  "mat_add A B = Inr C \<Longrightarrow> C = mk_mat (rows A) (cols A) (\<lambda>i j. coeff A i j + coeff B i j)"
  by (auto simp: mat_add_def split: if_splits)

lemma mat_vec_raw_dpi_entries:
  assumes P: "rows P = m" "cols P = m" and x: "length x = n + m + 1"
  shows "mat_vec_raw (mk_mat (n + m + 1) (n + m + 1) (dpi_entries n m P g)) x
         = take n x @ mat_vec_raw P (take m (drop n x)) @ [g * x ! (n + m)]"
    (is "mat_vec_raw ?D x = ?rhs")
proof (rule nth_equalityI)
  show "length (mat_vec_raw ?D x) = length ?rhs"
    using P x by (simp add: length_mat_vec_raw rows_mk_mat)
next
  fix i assume "i < length (mat_vec_raw ?D x)"
  then have i: "i < n + m + 1" by (simp add: length_mat_vec_raw rows_mk_mat)
  have row: "mat_vec_raw ?D x ! i = (\<Sum>k = 0..<n + m + 1. dpi_entries n m P g i k * x ! k)"
    using i by (simp add: mat_vec_raw_nth rows_mk_mat cols_mk_mat coeff_mk_mat)
  consider (free) "i < n" | (cone) "n \<le> i" "i < n + m" | (last) "i = n + m"
    using i by linarith
  then show "mat_vec_raw ?D x ! i = ?rhs ! i"
  proof cases
    case free
    have "(\<Sum>k = 0..<n + m + 1. dpi_entries n m P g i k * x ! k)
          = (\<Sum>k = 0..<n + m + 1. (if k = i then x ! k else 0))"
      using free by (intro sum.cong) (auto simp: dpi_entries_def)
    also have "\<dots> = x ! i" using i by (simp add: sum.delta)
    finally show ?thesis using free x row by (simp add: nth_append)
  next
    case cone
    have "(\<Sum>k = 0..<n + m + 1. dpi_entries n m P g i k * x ! k)
          = (\<Sum>k = 0 + n..<m + n. dpi_entries n m P g i k * x ! k)"
      using cone by (intro sum.mono_neutral_right) (auto simp: dpi_entries_def)
    also have "\<dots> = (\<Sum>k = 0..<m. dpi_entries n m P g i (k + n) * x ! (k + n))"
      by (rule sum.shift_bounds_nat_ivl)
    also have "\<dots> = (\<Sum>k = 0..<m. coeff P (i - n) k * take m (drop n x) ! k)"
      using cone x by (intro sum.cong) (auto simp: dpi_entries_def add.commute)
    also have "\<dots> = mat_vec_raw P (take m (drop n x)) ! (i - n)"
      using cone P by (simp add: mat_vec_raw_nth)
    finally have "mat_vec_raw ?D x ! i = mat_vec_raw P (take m (drop n x)) ! (i - n)"
      using row by simp
    moreover have "i - n < m" "\<not> i < n" using cone by linarith+
    ultimately show ?thesis
      using x P by (simp add: nth_append length_mat_vec_raw)
  next
    case last
    have "(\<Sum>k = 0..<n + m + 1. dpi_entries n m P g i k * x ! k)
          = (\<Sum>k = 0..<n + m + 1. (if k = i then g * x ! k else 0))"
      using last by (intro sum.cong) (auto simp: dpi_entries_def)
    also have "\<dots> = g * x ! i" using i by (simp add: sum.delta)
    finally show ?thesis
      using last x P row by (simp add: nth_append length_mat_vec_raw)
  qed
qed

lemma op_dims_dpi:
  "op_rows (dpi dprojection u v w cones) = length u + op_rows (dprojection v cones True) + 1"
  "op_cols (dpi dprojection u v w cones) = length u + op_cols (dprojection v cones True) + 1"
  by (simp_all add: dpi_def Let_def block_diag_def identity_def scalar_def)

lemma matvec_dpi:
  assumes "op_cols (dprojection v cones True) = length v" "length x = length u + length v + 1"
  shows "matvec (dpi dprojection u v w cones) x
         = take (length u) x @ matvec (dprojection v cones True) (take (length v) (drop (length u) x))
           @ [gt w 0 * x ! (length u + length v)]"
proof -
  have "take (Suc 0) (drop (length u + length v) x) = [x ! (length u + length v)]"
    using assms(2) Cons_nth_drop_Suc [of "length u + length v" x, symmetric] by simp
  then show ?thesis
    using assms by (simp add: dpi_def Let_def block_diag_def identity_def scalar_def add.commute)
qed

lemma M_dense_chain:
  assumes Q: "rows Q = length u + length v + 1" "cols Q = length u + length v + 1"
    and P: "rows (dpd v cones True) = length v" "cols (dpd v cones True) = length v"
  obtains QmI D Pm M where
    "mat_sub Q (setIdentity (length u + length v + 1) (length u + length v + 1)) = Inr QmI"
    "dpi_dense dpd u v w cones = Inr D"
    "D = mk_mat (length u + length v + 1) (length u + length v + 1)
           (dpi_entries (length u) (length v) (dpd v cones True) (gt w 0))"
    "mat_mul QmI D = Inr Pm"
    "mat_add Pm (setIdentity (length u + length v + 1) (length u + length v + 1)) = Inr M"
    "M_dense dpd Q cones u v w = Inr M"
    "rows M = length u + length v + 1" "cols M = length u + length v + 1"
proof -
  let ?N = "length u + length v + 1"
  let ?eye = "setIdentity ?N ?N"
  define QmI where "QmI = mk_mat ?N ?N (\<lambda>i j. coeff Q i j - coeff ?eye i j)"
  define D where "D = mk_mat ?N ?N (dpi_entries (length u) (length v) (dpd v cones True) (gt w 0))"
  define Pm where "Pm = mk_mat ?N ?N (\<lambda>i j. \<Sum>k\<leftarrow>[0..<?N]. coeff QmI i k * coeff D k j)"
  define M where "M = mk_mat ?N ?N (\<lambda>i j. coeff Pm i j + coeff ?eye i j)"
  have 1: "mat_sub Q ?eye = Inr QmI"
    using Q by (simp add: mat_sub_def QmI_def setIdentity_def rows_mk_mat cols_mk_mat)
  have 2: "dpi_dense dpd u v w cones = Inr D"
    using P by (simp add: dpi_dense_eq D_def)
  have 3: "mat_mul QmI D = Inr Pm"
    by (simp add: mat_mul_def QmI_def D_def Pm_def rows_mk_mat cols_mk_mat)
  have 4: "mat_add Pm ?eye = Inr M"
    by (simp add: mat_add_def Pm_def M_def setIdentity_def rows_mk_mat cols_mk_mat)
  have 5: "M_dense dpd Q cones u v w = Inr M"
    by (simp only: M_dense_def Let_def ebind_def 1 2 3 4 sum.case)
  have 6: "rows M = ?N" "cols M = ?N" by (simp_all add: M_def rows_mk_mat cols_mk_mat)
  show thesis using that [OF 1 2 D_def 3 4 5 6] .
qed

lemma M_operator_eq:
  assumes Q: "rows Q = length u + length v + 1" "cols Q = length u + length v + 1"
    and P: "op_rows (dp v cones True) = length v" "op_cols (dp v cones True) = length v"
  shows "M_operator dp Q cones u v w =
     Inr \<lparr>op_rows = length u + length v + 1, op_cols = length u + length v + 1,
          matvec = (\<lambda>x. map2 (+) (map2 (-) (mat_vec_raw Q (matvec (dpi dp u v w cones) x))
                                          (matvec (dpi dp u v w cones) x)) x),
          rmatvec = (\<lambda>x. map2 (+) (rmatvec (dpi dp u v w cones)
                                      (map2 (-) (mat_vec_raw (transpose_mat Q) x) x)) x)\<rparr>"
  using assms
  by (simp add: M_operator_def Let_def ebind_def linop_sub_def linop_mul_def linop_add_def
      aslinearoperator_def identity_def op_dims_dpi)

lemma same_linear_map_aslinearoperator: "same_linear_map (aslinearoperator A) A"
  by (simp add: same_linear_map_def aslinearoperator_def)

subsection \<open>Further facts about the dense pipeline\<close>

text \<open>
  Identity data: when \<open>Q\<close> is the \<open>N \<times> N\<close> identity, \<open>M_dense\<close> returns the identity
  matrix, whatever \<open>u\<close>, \<open>v\<close>, \<open>w\<close> and \<open>cones\<close> are, the collaborator's matrix being
  \<open>|v| \<times> |v|\<close>. What the QR solve of the library returns on this matrix is not part
  of the statement.
\<close>

lemma M_dense_identity:
  assumes Pd: "rows (dpd v cones True) = length v" "cols (dpd v cones True) = length v"
    and Q: "Q = setIdentity (length u + length v + 1) (length u + length v + 1)"
  shows "M_dense dpd Q cones u v w = Inr (setIdentity (length u + length v + 1) (length u + length v + 1))"
proof -
  let ?N = "length u + length v + 1"
  let ?eye = "setIdentity ?N ?N"
  have dQ: "rows Q = ?N" "cols Q = ?N" by (simp_all add: Q setIdentity_def rows_mk_mat cols_mk_mat)
  obtain QmI D Pm M where c:
    "mat_sub Q ?eye = Inr QmI" "dpi_dense dpd u v w cones = Inr D"
    "D = mk_mat ?N ?N (dpi_entries (length u) (length v) (dpd v cones True) (gt w 0))"
    "mat_mul QmI D = Inr Pm" "mat_add Pm ?eye = Inr M" "M_dense dpd Q cones u v w = Inr M"
    "rows M = ?N" "cols M = ?N"
    by (rule M_dense_chain [where Q = Q and u = u and v = v and w = w and dpd = dpd and cones = cones, OF dQ Pd])
  have dQmI: "rows QmI = ?N" "cols QmI = ?N" using dims_mat_sub [OF c(1)] dQ by simp_all
  have dD: "rows D = ?N" "cols D = ?N" by (simp_all add: c(3) rows_mk_mat cols_mk_mat)
  have dP: "rows Pm = ?N" "cols Pm = ?N" using dims_mat_mul [OF c(4)] dQmI dD by simp_all
  have zero: "coeff QmI i k = 0" if "i < ?N" "k < ?N" for i k
    using coeff_mat_sub [OF c(1)] that dQ by (simp add: Q)
  have P0: "coeff Pm i j = 0" if "i < ?N" "j < ?N" for i j
    using coeff_mat_mul [OF c(4)] that dQmI dD zero by simp
  have "M = mk_mat ?N ?N (\<lambda>i j. coeff Pm i j + coeff ?eye i j)"
    using mat_add_Inr [OF c(5)] dP by simp
  also have "\<dots> = ?eye"
    unfolding setIdentity_def [of ?N ?N]
    by (rule mk_mat_cong) (simp add: P0 coeff_mk_mat)
  finally show ?thesis using c(6) by simp
qed

lemma M_dense_identity_scenario:
  "M_dense (\<lambda>v (c::nat list) d. setIdentity (length v) (length v)) (setIdentity 2 2) [] [2] [] 3
     = Inr (setIdentity 2 2)"
proof -
  have N: "length [2::real] + length ([]::real list) + 1 = 2" by simp
  have d: "rows (setIdentity (length ([]::real list)) (length ([]::real list))) = length ([]::real list)"
    "cols (setIdentity (length ([]::real list)) (length ([]::real list))) = length ([]::real list)"
    by (simp_all add: setIdentity_def rows_mk_mat cols_mk_mat)
  show ?thesis
    using d M_dense_identity [of "\<lambda>v (c::nat list) d. setIdentity (length v) (length v)" "[]" "[]"
        "setIdentity 2 2" "[2]" 3, unfolded N]
    by simp
qed

text \<open>
  Sizes: when the collaborator's matrix is \<open>|v| \<times> |v|\<close>, \<open>dpi_dense\<close> returns a matrix
  of size \<open>N \<times> N\<close> with \<open>N = |u| + |v| + 1\<close>, and so does \<open>M_dense\<close> for a \<open>Q\<close> of
  that size; \<open>N\<close> is computed from \<open>u\<close> and \<open>v\<close> alone. What the linear-algebra
  library does with a \<open>Q\<close> of another size is not part of the statement.
\<close>

lemma dense_sizes:
  assumes P: "rows (dpd v cones True) = length v" "cols (dpd v cones True) = length v"
  shows "(\<exists>D. dpi_dense dpd u v w cones = Inr D \<and>
            rows D = length u + length v + 1 \<and> cols D = length u + length v + 1) \<and>
         (rows Q = length u + length v + 1 \<and> cols Q = length u + length v + 1 \<longrightarrow>
            (\<exists>M. M_dense dpd Q cones u v w = Inr M \<and>
                  rows M = length u + length v + 1 \<and> cols M = length u + length v + 1))"
proof (intro conjI impI)
  show "\<exists>D. dpi_dense dpd u v w cones = Inr D \<and>
            rows D = length u + length v + 1 \<and> cols D = length u + length v + 1"
    using P by (simp add: dpi_dense_eq rows_mk_mat cols_mk_mat)
  assume Q: "rows Q = length u + length v + 1 \<and> cols Q = length u + length v + 1"
  show "\<exists>M. M_dense dpd Q cones u v w = Inr M \<and>
               rows M = length u + length v + 1 \<and> cols M = length u + length v + 1"
    by (rule M_dense_chain [where Q = Q and u = u and v = v and w = w and dpd = dpd and cones = cones])
       (use P Q in auto)
qed

section \<open>The claims\<close>

text \<open>
  Claim C1. \<open>M_operator\<close> computes \<open>N = |u| + |v| + 1\<close> and returns the composed
  operator \<open>(wrap Q - identity N) \<cdot> dpi u v w cones + identity N\<close>; \<open>M_dense\<close> computes
  the same formula with dense arithmetic, \<open>(Q - I\<^sub>N) \<cdot> dpi_dense u v w cones + I\<^sub>N\<close>, for
  every \<open>Q\<close>, \<open>cones\<close>, \<open>u\<close>, \<open>v\<close>, \<open>w\<close> of matching dimensions. Matching dimensions:
  \<open>Q\<close> is \<open>N \<times> N\<close> and the collaborator's projection derivative of \<open>v\<close> is
  \<open>|v| \<times> |v|\<close>. Each composition step succeeds, the result is the step-by-step
  composition, and it acts as the formula says: on a vector for the operator, entry by
  entry for the matrix.
\<close>

theorem M_formula:
  assumes Q: "rows Q = length u + length v + 1" "cols Q = length u + length v + 1"
    and Po: "op_rows (dp v cones True) = length v" "op_cols (dp v cones True) = length v"
    and Pd: "rows (dpd v cones True) = length v" "cols (dpd v cones True) = length v"
  shows "(\<exists>A B L. linop_sub (aslinearoperator Q) (identity (length u + length v + 1)) = Inr A \<and>
            linop_mul A (dpi dp u v w cones) = Inr B \<and>
            linop_add B (identity (length u + length v + 1)) = Inr L \<and>
            M_operator dp Q cones u v w = Inr L \<and>
            op_rows L = length u + length v + 1 \<and> op_cols L = length u + length v + 1 \<and>
            (\<forall>x. matvec L x =
                   map2 (+) (map2 (-) (mat_vec_raw Q (matvec (dpi dp u v w cones) x))
                                      (matvec (dpi dp u v w cones) x)) x)) \<and>
         (\<exists>A D B M. mat_sub Q (setIdentity (length u + length v + 1) (length u + length v + 1)) = Inr A \<and>
            dpi_dense dpd u v w cones = Inr D \<and> mat_mul A D = Inr B \<and>
            mat_add B (setIdentity (length u + length v + 1) (length u + length v + 1)) = Inr M \<and>
            M_dense dpd Q cones u v w = Inr M \<and>
            rows M = length u + length v + 1 \<and> cols M = length u + length v + 1 \<and>
            (\<forall>i<length u + length v + 1. \<forall>j<length u + length v + 1.
               coeff M i j =
                 (\<Sum>k = 0..<length u + length v + 1.
                     (coeff Q i k - (if i = k then 1 else 0)) * coeff D k j)
                 + (if i = j then 1 else 0)))"
    (is "?op \<and> ?dense")
proof
  let ?N = "length u + length v + 1"
  show ?op
    using Q Po
    by (simp add: M_operator_def Let_def ebind_def linop_sub_def linop_mul_def linop_add_def
        aslinearoperator_def identity_def op_dims_dpi)
next
  let ?N = "length u + length v + 1"
  let ?eye = "setIdentity ?N ?N"
  obtain QmI D Pm M where c:
    "mat_sub Q ?eye = Inr QmI" "dpi_dense dpd u v w cones = Inr D"
    "D = mk_mat ?N ?N (dpi_entries (length u) (length v) (dpd v cones True) (gt w 0))"
    "mat_mul QmI D = Inr Pm" "mat_add Pm ?eye = Inr M" "M_dense dpd Q cones u v w = Inr M"
    "rows M = ?N" "cols M = ?N"
    by (rule M_dense_chain [where Q = Q and u = u and v = v and w = w and dpd = dpd and cones = cones, OF Q Pd])
  have dQ: "rows QmI = ?N" "cols QmI = ?N" using dims_mat_sub [OF c(1)] Q by simp_all
  have dD: "rows D = ?N" "cols D = ?N" by (simp_all add: c(3) rows_mk_mat cols_mk_mat)
  have dP: "rows Pm = ?N" "cols Pm = ?N" using dims_mat_mul [OF c(4)] dQ dD by simp_all
  have "coeff M i j = (\<Sum>k = 0..<?N. (coeff Q i k - (if i = k then 1 else 0)) * coeff D k j)
                       + (if i = j then 1 else 0)"
    if ij: "i < ?N" "j < ?N" for i j
  proof -
    have "coeff M i j = coeff Pm i j + coeff ?eye i j"
      using coeff_mat_add [OF c(5)] ij dP by simp
    also have "coeff Pm i j = (\<Sum>k = 0..<?N. coeff QmI i k * coeff D k j)"
      using coeff_mat_mul [OF c(4)] ij dQ dD by simp
    also have "\<dots> = (\<Sum>k = 0..<?N. (coeff Q i k - (if i = k then 1 else 0)) * coeff D k j)"
    proof (rule sum.cong)
      fix k assume "k \<in> {0..<?N}"
      then have "coeff QmI i k = coeff Q i k - coeff ?eye i k"
        using coeff_mat_sub [OF c(1)] ij Q by simp
      then show "coeff QmI i k * coeff D k j = (coeff Q i k - (if i = k then 1 else 0)) * coeff D k j"
        using ij \<open>k \<in> {0..<?N}\<close> by (simp add: setIdentity_def coeff_mk_mat)
    qed simp
    also have "coeff ?eye i j = (if i = j then 1 else 0)"
      using ij by (simp add: setIdentity_def coeff_mk_mat)
    finally show ?thesis .
  qed
  then show ?dense using c by blast
qed

theorem M_formula_witness:
  "rows (mk_mat 3 3 (\<lambda>i j. real (i + 2 * j))) = length [2::real] + length [1::real] + 1 \<and>
   cols (mk_mat 3 3 (\<lambda>i j. real (i + 2 * j))) = length [2::real] + length [1::real] + 1 \<and>
   op_rows (aslinearoperator (setIdentity (length [1::real]) (length [1::real]))) = length [1::real] \<and>
   op_cols (aslinearoperator (setIdentity (length [1::real]) (length [1::real]))) = length [1::real] \<and>
   rows (setIdentity (length [1::real]) (length [1::real])) = length [1::real] \<and>
   cols (setIdentity (length [1::real]) (length [1::real])) = length [1::real] \<and>
   (\<exists>L. M_operator (\<lambda>v (c::nat list) d. aslinearoperator (setIdentity (length v) (length v)))
              (mk_mat 3 3 (\<lambda>i j. real (i + 2 * j))) [] [2] [1] (-1) = Inr L \<and>
        op_rows L = 3 \<and> op_cols L = 3 \<and> matvec L [1, 2, 3] = [4, 7, 13]) \<and>
   (\<exists>M. M_dense (\<lambda>v (c::nat list) d. setIdentity (length v) (length v))
              (mk_mat 3 3 (\<lambda>i j. real (i + 2 * j))) [] [2] [1] (-1) = Inr M \<and>
        rows M = 3 \<and> cols M = 3 \<and> coeff M 0 1 = 2 \<and> coeff M 0 2 = 0 \<and> coeff M 2 2 = 1)"
proof -
  let ?Q = "mk_mat 3 3 (\<lambda>i j. real (i + 2 * j))"
  let ?dp = "\<lambda>v (c::nat list) d. aslinearoperator (setIdentity (length v) (length v))"
  let ?dpd = "\<lambda>v (c::nat list) d. setIdentity (length v) (length v)"
  have q: "rows ?Q = length [2::real] + length [1::real] + 1"
    "cols ?Q = length [2::real] + length [1::real] + 1"
    by (simp_all add: rows_mk_mat cols_mk_mat)
  have po: "op_rows (?dp [1] [] True) = length [1::real]" "op_cols (?dp [1] [] True) = length [1::real]"
    by (simp_all add: aslinearoperator_def setIdentity_def rows_mk_mat cols_mk_mat)
  have pd: "rows (?dpd [1] [] True) = length [1::real]" "cols (?dpd [1] [] True) = length [1::real]"
    by (simp_all add: setIdentity_def rows_mk_mat cols_mk_mat)
  have N: "length [2::real] + length [1::real] + 1 = 3" by simp
  note th = M_formula [of ?Q "[2]" "[1]" ?dp "[]" ?dpd "-1", OF q po pd, unfolded N]
  from th obtain L where L: "M_operator ?dp ?Q [] [2] [1] (-1) = Inr L" "op_rows L = 3" "op_cols L = 3"
    "\<forall>x. matvec L x = map2 (+) (map2 (-) (mat_vec_raw ?Q (matvec (dpi ?dp [2] [1] (-1) []) x))
                                      (matvec (dpi ?dp [2] [1] (-1) []) x)) x"
    by blast
  have y: "matvec (dpi ?dp [2] [1] (-1) []) [1, 2, 3] = [1, 2, 0]"
    by (simp add: dpi_def Let_def block_diag_def identity_def scalar_def aslinearoperator_def
        mat_vec_raw_def setIdentity_def rows_mk_mat cols_mk_mat coeff_mk_mat gt_def)
  have Qy: "mat_vec_raw ?Q [1, 2, 0] = [4, 7, 10]"
    by (simp add: mat_vec_raw_def rows_mk_mat cols_mk_mat coeff_mk_mat eval_nat_numeral)
  have Lx: "matvec L [1, 2, 3] = [4, 7, 13]"
    using L(4) [rule_format, of "[1, 2, 3]"] unfolding y Qy by simp
  from th obtain D M where M: "dpi_dense ?dpd [2] [1] (-1) [] = Inr D"
    "M_dense ?dpd ?Q [] [2] [1] (-1) = Inr M" "rows M = 3" "cols M = 3"
    "\<forall>i<3. \<forall>j<3. coeff M i j =
        (\<Sum>k = 0..<3. (coeff ?Q i k - (if i = k then 1 else 0)) * coeff D k j) + (if i = j then 1 else 0)"
    by blast
  have D: "D = mk_mat 3 3 (dpi_entries 1 1 (setIdentity 1 1) 0)"
    using M(1) dpi_dense_eq [of ?dpd "[1]" "[]" "[2]" "-1", OF pd] by (simp add: gt_def eval_nat_numeral)
  have c: "coeff M 0 1 = 2" "coeff M 0 2 = 0" "coeff M 2 2 = 1"
    using M(5) [rule_format, of 0 1] M(5) [rule_format, of 0 2] M(5) [rule_format, of 2 2]
    by (simp_all add: D coeff_mk_mat dpi_entries_def setIdentity_def eval_nat_numeral)
  show ?thesis using q po pd L(1,2,3) Lx M(2,3,4) c by blast
qed

text \<open>
  Claim C2. For every \<open>(Q, cones, u, v, w)\<close> of matching dimensions and every vector
  \<open>x\<close> of length \<open>N = |u| + |v| + 1\<close>, applying the operator \<open>M_operator\<close> to \<open>x\<close>
  gives the same vector as multiplying the matrix \<open>M_dense\<close> by \<open>x\<close>. The two forms of
  the collaborator's cone-projection derivative are taken to denote the same linear map
  (\<open>same_linear_map\<close>).
\<close>

theorem operator_dense_agree:
  assumes Q: "rows Q = length u + length v + 1" "cols Q = length u + length v + 1"
    and P: "rows (dpd v cones True) = length v" "cols (dpd v cones True) = length v"
    and agree: "same_linear_map (dp v cones True) (dpd v cones True)"
    and x: "length x = length u + length v + 1"
  shows "\<exists>L M. M_operator dp Q cones u v w = Inr L \<and> M_dense dpd Q cones u v w = Inr M \<and>
               mat_vec M x = Inr (matvec L x)"
proof -
  let ?N = "length u + length v + 1"
  let ?eye = "setIdentity ?N ?N"
  from agree P have Po: "op_rows (dp v cones True) = length v" "op_cols (dp v cones True) = length v"
    and mv: "\<And>y. length y = length v \<Longrightarrow> matvec (dp v cones True) y = mat_vec_raw (dpd v cones True) y"
    by (simp_all add: same_linear_map_def)
  obtain QmI D Pm M where c:
    "mat_sub Q ?eye = Inr QmI" "dpi_dense dpd u v w cones = Inr D"
    "D = mk_mat ?N ?N (dpi_entries (length u) (length v) (dpd v cones True) (gt w 0))"
    "mat_mul QmI D = Inr Pm" "mat_add Pm ?eye = Inr M" "M_dense dpd Q cones u v w = Inr M"
    "rows M = ?N" "cols M = ?N"
    by (rule M_dense_chain [where Q = Q and u = u and v = v and w = w and dpd = dpd and cones = cones, OF Q P])
  define y where "y = matvec (dpi dp u v w cones) x"
  let ?z = "take (length v) (drop (length u) x)"
  have z: "length ?z = length v" using x by simp
  have y_op: "y = take (length u) x @ matvec (dp v cones True) ?z @ [gt w 0 * x ! (length u + length v)]"
    unfolding y_def by (rule matvec_dpi) (fact Po(2), fact x)
  have "mat_vec_raw D x
        = take (length u) x @ mat_vec_raw (dpd v cones True) ?z @ [gt w 0 * x ! (length u + length v)]"
    unfolding c(3) by (rule mat_vec_raw_dpi_entries) (fact P(1), fact P(2), fact x)
  then have y_dense: "mat_vec_raw D x = y"
    using y_op mv [OF z] by simp
  have len_y: "length y = ?N"
    using y_dense [symmetric] by (simp add: length_mat_vec_raw c(3) rows_mk_mat)
  have "mat_vec_raw M x = map2 (+) (mat_vec_raw Pm x) (mat_vec_raw ?eye x)"
    by (rule mat_vec_raw_add [OF c(5)])
  also have "mat_vec_raw ?eye x = x" by (rule mat_vec_raw_setIdentity [OF x])
  also have "mat_vec_raw Pm x = mat_vec_raw QmI y"
    using mat_vec_raw_mul [OF c(4)] y_dense by simp
  also have "mat_vec_raw QmI y = map2 (-) (mat_vec_raw Q y) (mat_vec_raw ?eye y)"
    by (rule mat_vec_raw_sub [OF c(1)])
  also have "mat_vec_raw ?eye y = y" by (rule mat_vec_raw_setIdentity [OF len_y])
  finally have "mat_vec_raw M x = map2 (+) (map2 (-) (mat_vec_raw Q y) y) x" .
  then have "mat_vec M x = Inr (map2 (+) (map2 (-) (mat_vec_raw Q y) y) x)"
    using c(8) x by (simp add: mat_vec_def)
  then show ?thesis
    using c(6) M_operator_eq [where dp = dp and Q = Q and u = u and v = v and w = w and cones = cones, OF Q Po]
    by (simp add: y_def)
qed

theorem operator_dense_agree_witness:
  "same_linear_map (aslinearoperator (setIdentity (length [1::real]) (length [1::real])))
                   (setIdentity (length [1::real]) (length [1::real])) \<and>
   (\<exists>L M. M_operator (\<lambda>v (c::nat list) d. aslinearoperator (setIdentity (length v) (length v)))
              (mk_mat 3 3 (\<lambda>i j. real (i + 2 * j))) [] [2] [1] 3 = Inr L \<and>
          M_dense (\<lambda>v (c::nat list) d. setIdentity (length v) (length v))
              (mk_mat 3 3 (\<lambda>i j. real (i + 2 * j))) [] [2] [1] 3 = Inr M \<and>
          mat_vec M [1, 2, 3] = Inr (matvec L [1, 2, 3]))"
proof -
  have N: "length [2::real] + length [1::real] + 1 = 3" by simp
  have a: "same_linear_map (aslinearoperator (setIdentity (length [1::real]) (length [1::real])))
                   (setIdentity (length [1::real]) (length [1::real]))"
    by (rule same_linear_map_aslinearoperator)
  have d: "rows (setIdentity (length [1::real]) (length [1::real])) = length [1::real]"
    "cols (setIdentity (length [1::real]) (length [1::real])) = length [1::real]"
    by (simp_all add: setIdentity_def rows_mk_mat cols_mk_mat)
  have q: "rows (mk_mat 3 3 (\<lambda>i j. real (i + 2 * j))) = 3" "cols (mk_mat 3 3 (\<lambda>i j. real (i + 2 * j))) = 3"
    "length [1::real, 2, 3] = 3"
    by (simp_all add: rows_mk_mat cols_mk_mat)
  show ?thesis
    using a operator_dense_agree [of "mk_mat 3 3 (\<lambda>i j. real (i + 2 * j))" "[2]" "[1]"
      "\<lambda>v (c::nat list) d. setIdentity (length v) (length v)" "[]"
      "\<lambda>v (c::nat list) d. aslinearoperator (setIdentity (length v) (length v))" "[1, 2, 3]" 3,
      unfolded N, OF q(1) q(2) d a q(3)]
    by blast
qed

text \<open>
  Claim C4. For every valid input, with \<open>n = |u|\<close>, \<open>m = |v|\<close> and \<open>N = n + m + 1\<close>, the
  matrix returned by \<open>dpi_dense\<close> is exactly block-diagonal: its top-left \<open>n \<times> n\<close> block
  is the identity, its middle \<open>m \<times> m\<close> block is \<open>dprojection_dense v cones True\<close>, its
  bottom-right entry is \<open>gt w 0\<close>, and every entry outside these three diagonal blocks
  is zero. An input is valid when the collaborator's matrix is \<open>m \<times> m\<close>.
\<close>

theorem dpi_dense_block_diagonal:
  assumes "rows (dpd v cones True) = length v" "cols (dpd v cones True) = length v"
  shows "\<exists>D. dpi_dense dpd u v w cones = Inr D \<and>
           rows D = length u + length v + 1 \<and> cols D = length u + length v + 1 \<and>
           (\<forall>i<length u. \<forall>j<length u. coeff D i j = coeff (setIdentity (length u) (length u)) i j) \<and>
           (\<forall>i<length v. \<forall>j<length v.
              coeff D (length u + i) (length u + j) = coeff (dpd v cones True) i j) \<and>
           coeff D (length u + length v) (length u + length v) = gt w 0 \<and>
           (\<forall>i<length u + length v + 1. \<forall>j<length u + length v + 1.
              \<not> (i < length u \<and> j < length u) \<and>
              \<not> (length u \<le> i \<and> i < length u + length v \<and> length u \<le> j \<and> j < length u + length v) \<and>
              \<not> (i = length u + length v \<and> j = length u + length v)
              \<longrightarrow> coeff D i j = 0)"
  unfolding dpi_dense_eq [of dpd v cones, OF assms]
  by (auto simp: rows_mk_mat cols_mk_mat coeff_mk_mat dpi_entries_def setIdentity_def)

theorem dpi_dense_block_diagonal_witness:
  "rows (mk_mat (length [1::real, -1]) (length [1::real, -1])
           (\<lambda>i j. if i = j then gt ([1::real, -1] ! i) 0 else 0)) = length [1::real, -1] \<and>
   cols (mk_mat (length [1::real, -1]) (length [1::real, -1])
           (\<lambda>i j. if i = j then gt ([1::real, -1] ! i) 0 else 0)) = length [1::real, -1] \<and>
   (\<exists>D. dpi_dense (\<lambda>v (c::nat list) d. mk_mat (length v) (length v)
                       (\<lambda>i j. if i = j then gt (v ! i) 0 else 0)) [2] [1, -1] 0 [] = Inr D \<and>
        rows D = 4 \<and> cols D = 4 \<and>
        coeff D 0 0 = 1 \<and> coeff D 1 1 = 1 \<and> coeff D 2 2 = 0 \<and> coeff D 3 3 = 1 \<and>
        coeff D 0 1 = 0 \<and> coeff D 1 2 = 0 \<and> coeff D 3 0 = 0 \<and> coeff D 2 3 = 0)"
proof -
  let ?dpd = "\<lambda>v (c::nat list) d. mk_mat (length v) (length v) (\<lambda>i j. if i = j then gt (v ! i) 0 else 0)"
  have lu: "length [2::real] = 1" and lv: "length [1::real, -1] = 2" by simp_all
  have d: "rows (?dpd [1, -1] [] True) = length [1::real, -1]"
    "cols (?dpd [1, -1] [] True) = length [1::real, -1]"
    by (simp_all add: rows_mk_mat cols_mk_mat)
  from dpi_dense_block_diagonal [of ?dpd "[1, -1]" "[]" "[2]" 0, OF d]
  obtain D where D: "dpi_dense ?dpd [2] [1, -1] 0 [] = Inr D"
    "rows D = length [2::real] + length [1::real, -1] + 1"
    "cols D = length [2::real] + length [1::real, -1] + 1"
    "\<forall>i<length [2::real]. \<forall>j<length [2::real].
        coeff D i j = coeff (setIdentity (length [2::real]) (length [2::real])) i j"
    "\<forall>i<length [1::real, -1]. \<forall>j<length [1::real, -1].
        coeff D (length [2::real] + i) (length [2::real] + j) = coeff (?dpd [1, -1] [] True) i j"
    "coeff D (length [2::real] + length [1::real, -1]) (length [2::real] + length [1::real, -1]) = gt 0 0"
    "\<forall>i<length [2::real] + length [1::real, -1] + 1. \<forall>j<length [2::real] + length [1::real, -1] + 1.
        \<not> (i < length [2::real] \<and> j < length [2::real]) \<and>
        \<not> (length [2::real] \<le> i \<and> i < length [2::real] + length [1::real, -1] \<and>
            length [2::real] \<le> j \<and> j < length [2::real] + length [1::real, -1]) \<and>
        \<not> (i = length [2::real] + length [1::real, -1] \<and> j = length [2::real] + length [1::real, -1])
        \<longrightarrow> coeff D i j = 0"
    by blast
  note E = D [unfolded lu lv]
  have "coeff D 0 0 = 1" using E(4) [rule_format, of 0 0] by (simp add: setIdentity_def coeff_mk_mat)
  moreover have "coeff D 1 1 = 1"
    using E(5) [rule_format, of 0 0] by (simp add: coeff_mk_mat gt_def eval_nat_numeral)
  moreover have "coeff D 2 2 = 0"
    using E(5) [rule_format, of 1 1] by (simp add: coeff_mk_mat gt_def eval_nat_numeral)
  moreover have "coeff D 3 3 = 1" using E(6) by (simp add: gt_def eval_nat_numeral)
  moreover have "coeff D 0 1 = 0" using E(7) [rule_format, of 0 1] by simp
  moreover have "coeff D 1 2 = 0"
    using E(5) [rule_format, of 0 1] by (simp add: coeff_mk_mat eval_nat_numeral)
  moreover have "coeff D 3 0 = 0" using E(7) [rule_format, of 3 0] by simp
  moreover have "coeff D 2 3 = 0" using E(7) [rule_format, of 2 3] by simp
  moreover have "rows D = 4" "cols D = 4" using E(2,3) by simp_all
  ultimately show ?thesis using d E(1) by blast
qed

text \<open>
  Claim C5. For every \<open>(u, v, w, cones)\<close>, \<open>dpi\<close> returns the block-diagonal composition
  of exactly three operators in this order: the identity on the first \<open>|u|\<close> coordinates,
  the collaborator's \<open>dprojection v cones dual\<close> called with \<open>dual = True\<close>, and the
  \<open>1 \<times> 1\<close> scalar operator \<open>gt w 0\<close>. The operator acts block by block on the
  concatenation of the three domains.
\<close>

theorem dpi_three_blocks:
  "dpi dp u v w cones = block_diag [identity (length u), dp v cones True, scalar (gt w 0)] \<and>
   op_rows (dpi dp u v w cones) = length u + op_rows (dp v cones True) + 1 \<and>
   op_cols (dpi dp u v w cones) = length u + op_cols (dp v cones True) + 1 \<and>
   (\<forall>x. matvec (dpi dp u v w cones) x =
          take (length u) x
          @ matvec (dp v cones True) (take (op_cols (dp v cones True)) (drop (length u) x))
          @ map (\<lambda>a. gt w 0 * a) (take 1 (drop (length u + op_cols (dp v cones True)) x)))"
  by (simp add: dpi_def Let_def block_diag_def identity_def scalar_def add.commute)

text \<open>
  Claim C6. For all real \<open>x\<close> and \<open>t\<close>, \<open>gt x t\<close> is 1.0 when \<open>x \<ge> t\<close> and 0.0 when
  \<open>x < t\<close>; at the boundary \<open>x = t\<close>, and so at \<open>w = 0\<close> for the call \<open>gt w 0.0\<close>,
  it is 1.0, because the comparison is the non-strict \<open>\<ge>\<close>.
\<close>

theorem gt_step:
  "(x \<ge> t \<longrightarrow> gt x t = 1) \<and> (x < t \<longrightarrow> gt x t = 0) \<and> gt t t = 1 \<and> gt 0 0 = 1"
  by (simp add: gt_def)

theorem gt_step_witness:
  "(3::real) \<ge> 2 \<and> gt 3 2 = 1 \<and> (1::real) < 2 \<and> gt 1 2 = 0 \<and> gt 2 2 = 1 \<and> gt 0 0 = 1"
  using gt_step [of 2 3] gt_step [of 2 1] by simp

text \<open>
  Claim C9. \<open>dpi\<close> and \<open>dpi_dense\<close> depend on \<open>u\<close> only through its length: for
  vectors \<open>u\<close>, \<open>u'\<close> of the same length and every \<open>v\<close>, \<open>w\<close>, \<open>cones\<close>, the results
  for \<open>u\<close> and for \<open>u'\<close> are equal.
\<close>

theorem dpi_depends_on_length_only:
  assumes "length u = length u'"
  shows "dpi dp u v w cones = dpi dp u' v w cones \<and>
         dpi_dense dpd u v w cones = dpi_dense dpd u' v w cones"
  using assms by (simp add: dpi_def dpi_dense_def)

theorem dpi_depends_on_length_only_witness:
  "length [2::real, 5] = length [7::real, 0] \<and>
   dpi (\<lambda>v (c::nat list) d. aslinearoperator (setIdentity (length v) (length v))) [2, 5] [1] 3 []
     = dpi (\<lambda>v (c::nat list) d. aslinearoperator (setIdentity (length v) (length v))) [7, 0] [1] 3 [] \<and>
   dpi_dense (\<lambda>v (c::nat list) d. setIdentity (length v) (length v)) [2, 5] [1] 3 []
     = dpi_dense (\<lambda>v (c::nat list) d. setIdentity (length v) (length v)) [7, 0] [1] 3 []"
proof -
  have h: "length [2::real, 5] = length [7::real, 0]" by simp
  show ?thesis
    using h dpi_depends_on_length_only [OF h,
        of "\<lambda>v (c::nat list) d. aslinearoperator (setIdentity (length v) (length v))" "[1]" 3 "[]"
           "\<lambda>v (c::nat list) d. setIdentity (length v) (length v)"]
    by blast
qed

text \<open>
  Claim C10. \<open>solve_adjoint_derivative_dense\<close> is extensionally equal to
  \<open>solve_derivative_dense\<close>: for every matrix \<open>A\<close> and vector \<open>b\<close> both return the same
  result; the adjoint entry point transposes nothing, so the caller passes the transposed
  matrix.
\<close>

theorem solve_adjoint_is_solve:
  "solve_adjoint_derivative_dense solve A b = solve_derivative_dense solve A b"
  by (simp add: solve_adjoint_derivative_dense_def solve_derivative_dense_def)

end
